theory Spec2Isabelle
  imports Complex_Main
begin

section \<open>JavaScript values used by the two connection classes\<close>

text \<open>
  The fields of the connection configuration, the refresh token, the access token and a
  response body are strings when present. A value is \<open>undefined\<close>, a string, or a
  \<open>Buffer\<close> (what \<open>fs.readFileSync\<close> returns when no encoding is given).
  \<open>truthy\<close> is JavaScript's \<open>ToBoolean\<close> on these values: \<open>undefined\<close> and
  the empty string are falsy, every object is truthy.
\<close>

datatype jsval = JUndefined | JStr string | JBuffer string

fun truthy :: "jsval \<Rightarrow> bool" where
  "truthy JUndefined = False"
| "truthy (JStr s) = (s \<noteq> [])"
| "truthy (JBuffer b) = True"

text \<open>
  A number is an IEEE double. \<open>Num x\<close> is the finite double whose exact value is the
  real \<open>x\<close>; \<open>Undef\<close> is \<open>undefined\<close> where a number is expected
  (\<open>expires_in\<close> of a token that omits it); \<open>Undetermined\<close> stands for a result that
  this model does not determine. An arithmetic operation returns the exact result when
  that is a double, and rounds otherwise. \<open>exact\<close> is a sufficient condition for a real to
  be a double: an integer of magnitude at most \<open>2^53\<close>, or such an integer divided by
  \<open>2^10\<close>. Where the exact result satisfies it, the operation returns that result; where it
  does not (the operation may round, overflow, or still be exact), the model returns
  \<open>Undetermined\<close>.
\<close>

datatype jsnum = Undef | NaN | Num real | Undetermined

definition whole :: "real \<Rightarrow> bool" where
  "whole x = (of_int \<lfloor>x\<rfloor> = x)"

definition exact :: "real \<Rightarrow> bool" where
  "exact x = (whole x \<and> \<bar>x\<bar> \<le> 9007199254740992
            \<or> whole (x * 1024) \<and> \<bar>x * 1024\<bar> \<le> 9007199254740992)"

definition ieee :: "real \<Rightarrow> jsnum" where
  "ieee x = (if exact x then Num x else Undetermined)"

text \<open>
  A binary arithmetic operator: \<open>undefined\<close> converts to \<open>NaN\<close>, and \<open>NaN\<close> in either
  operand gives \<open>NaN\<close>.
\<close>

fun binop :: "(real \<Rightarrow> real \<Rightarrow> jsnum) \<Rightarrow> jsnum \<Rightarrow> jsnum \<Rightarrow> jsnum" where
  "binop f (Num a) (Num b) = f a b"
| "binop f Undef y = NaN"
| "binop f NaN y = NaN"
| "binop f (Num a) Undef = NaN"
| "binop f (Num a) NaN = NaN"
| "binop f (Num a) Undetermined = Undetermined"
| "binop f Undetermined Undef = NaN"
| "binop f Undetermined NaN = NaN"
| "binop f Undetermined (Num b) = Undetermined"
| "binop f Undetermined Undetermined = Undetermined"

definition num_add :: "jsnum \<Rightarrow> jsnum \<Rightarrow> jsnum" where
  "num_add = binop (\<lambda>a b. ieee (a + b))"

definition num_mul :: "jsnum \<Rightarrow> jsnum \<Rightarrow> jsnum" where
  "num_mul = binop (\<lambda>a b. ieee (a * b))"

text \<open>Division by 0 gives an infinity or \<open>NaN\<close>; the source divides by 1000 only.\<close>

definition num_div :: "jsnum \<Rightarrow> jsnum \<Rightarrow> jsnum" where
  "num_div = binop (\<lambda>a b. if b = 0 then Undetermined else ieee (a / b))"

text \<open>
  \<open>x || y\<close>: \<open>x\<close> when it is truthy (a number other than 0 and \<open>NaN\<close>), otherwise
  \<open>y\<close>.
\<close>

fun num_or :: "jsnum \<Rightarrow> jsnum \<Rightarrow> jsnum" where
  "num_or (Num a) y = (if a = 0 then y else Num a)"
| "num_or Undef y = y"
| "num_or NaN y = y"
| "num_or Undetermined y = Undetermined"

text \<open>\<open>ToIntegerOrInfinity\<close> on a finite number: truncation towards 0.\<close>

definition trunc :: "real \<Rightarrow> int" where
  "trunc x = (if 0 \<le> x then \<lfloor>x\<rfloor> else - \<lfloor>- x\<rfloor>)"

subsection \<open>Dates\<close>

text \<open>
  The local time zone, as ECMAScript sees it: \<open>offset_at_utc t\<close> is the offset of local
  time from UTC, in milliseconds, in force at the UTC time value \<open>t\<close>, and
  \<open>offset_at_local t\<close> is the offset by which the local time value \<open>t\<close> is interpreted
  (\<open>LocalTime(t) = t + offset_at_utc t\<close>, \<open>UTC(t) = t - offset_at_local t\<close>). Offsets are
  below a day in magnitude.
\<close>

record timezone =
  offset_at_utc :: "int \<Rightarrow> int"
  offset_at_local :: "int \<Rightarrow> int"

text \<open>
  A \<open>Date\<close> holds a time value, an integer number of milliseconds since the epoch of
  magnitude at most \<open>8.64e15\<close>, or is invalid; \<open>DateUndetermined\<close> is a date this model
  does not determine. \<open>TimeClip\<close> makes a time value out of that range invalid.
\<close>

datatype date = Date int | InvalidDate | DateUndetermined

definition TimeClip :: "int \<Rightarrow> date" where
  "TimeClip u = (if \<bar>u\<bar> > 8640000000000000 then InvalidDate else Date u)"

text \<open>\<open>getSeconds\<close> is the seconds field of the local time.\<close>

fun getSeconds :: "timezone \<Rightarrow> date \<Rightarrow> jsnum" where
  "getSeconds tz (Date t) = Num (of_int (((t + offset_at_utc tz t) div 1000) mod 60))"
| "getSeconds tz InvalidDate = NaN"
| "getSeconds tz DateUndetermined = Undetermined"

text \<open>
  \<open>setSeconds(sec)\<close> takes the local time of the date, replaces its seconds field by the
  integer part of \<open>sec\<close>, letting it overflow into the larger fields, converts the
  result back to UTC with the offset by which that local time is interpreted, and clips
  it. While \<open>1000 * |sec|\<close> is at most \<open>2^53 - 86400000\<close> the time within the day is
  computed without rounding, and the sum with the day and the conversion to UTC are then
  either exact or beyond the range of \<open>TimeClip\<close>; above that bound the model leaves the
  date undetermined.
\<close>

fun setSeconds :: "timezone \<Rightarrow> date \<Rightarrow> jsnum \<Rightarrow> date" where
  "setSeconds tz (Date t) (Num x) =
     (let sec = trunc x;
          local = t + offset_at_utc tz t;
          local1 = local - ((local div 1000) mod 60) * 1000 + sec * 1000
      in if 1000 * \<bar>sec\<bar> > 9007199168340992 then DateUndetermined
         else TimeClip (local1 - offset_at_local tz local1))"
| "setSeconds tz (Date t) Undef = InvalidDate"
| "setSeconds tz (Date t) NaN = InvalidDate"
| "setSeconds tz (Date t) Undetermined = DateUndetermined"
| "setSeconds tz InvalidDate x = InvalidDate"
| "setSeconds tz DateUndetermined x = DateUndetermined"

subsection \<open>Errors and the file system\<close>

datatype js_error = TypeError | FsError

text \<open>
  The file system maps a path to the content of the file there. \<open>fs.readFileSync\<close>
  throws a \<open>TypeError\<close> on an \<open>undefined\<close> path and a system error on the empty
  path and on a path with no readable file; otherwise it returns the content as a
  \<open>Buffer\<close>.
\<close>

type_synonym filesystem = "string \<Rightarrow> string option"

fun readFileSync :: "filesystem \<Rightarrow> jsval \<Rightarrow> js_error + jsval" where
  "readFileSync fs JUndefined = Inl TypeError"
| "readFileSync fs (JStr p) =
     (if p = [] then Inl FsError
      else case fs p of None \<Rightarrow> Inl FsError | Some c \<Rightarrow> Inr (JBuffer c))"
| "readFileSync fs (JBuffer p) =
     (if p = [] then Inl FsError
      else case fs p of None \<Rightarrow> Inl FsError | Some c \<Rightarrow> Inr (JBuffer c))"

text \<open>The expression \<open>s || fs.readFileSync(p)\<close>: the file is read only when \<open>s\<close> is falsy.\<close>

definition or_readFileSync :: "filesystem \<Rightarrow> jsval \<Rightarrow> jsval \<Rightarrow> js_error + jsval" where
  "or_readFileSync fs s p = (if truthy s then Inr s else readFileSync fs p)"

section \<open>Data model\<close>

text \<open>The \<open>conn\<close> object both constructors receive.\<close>

record adp_connection =
  granttype :: jsval
  tokenUrl :: jsval
  sslCertPath :: jsval
  sslKeyPath :: jsval
  sslCertString :: jsval
  sslKeyString :: jsval
  authorizationCode :: jsval
  callbackUrl :: jsval
  clientId :: jsval
  clientSecret :: jsval

record agent_options =
  ca :: "jsval list"
  key :: jsval
  cert :: jsval

record basic_auth =
  user :: jsval
  pass :: jsval
  sendImmediately :: bool

text \<open>
  A request payload. \<open>auth\<close> is present in the client-credentials payload only; \<open>form\<close>
  lists the properties of the form object in the order of the object literal.
\<close>

record request_payload =
  agentOptions :: agent_options
  strictSSL :: bool
  auth :: "basic_auth option"
  form :: "(string \<times> jsval) list"

record post_options =
  requestDesc :: string
  url :: jsval
  payload :: request_payload

text \<open>The token response: \<open>expires_in\<close> is \<open>Undef\<close> when the response omits it.\<close>

record token =
  access_token :: jsval
  expires_in :: jsnum

text \<open>The error of the transport: \<open>response\<close> is \<open>None\<close> when the error carries none.\<close>

record http_response =
  body :: jsval

record transport_error =
  statusCode :: jsnum
  response :: "http_response option"

text \<open>
  \<open>errObject\<close> is the object literal handed to the \<open>ConnectionException\<close> constructor
  of the package \<open>adp-core\<close>; the exception is modelled as the wrapper of that object.
\<close>

record errObject =
  statusCode :: jsnum
  oauthResponse :: jsval

datatype connection_exception = ConnectionException errObject

type_synonym cert_map = "(string \<times> string) list"

text \<open>
  What a connection does to the outside, in order: debug messages (by kind and argument,
  the text is not modelled), calls of the certificate loader \<open>readCerts\<close> with its list of
  paths, constructions of a \<open>Post\<close> with its options, and invocations of the stored
  callback, identified by a number. The callback of \<open>readCerts\<close> and of \<open>Post\<close> arrive
  later, as calls of \<open>readCertsCb\<close> and \<open>parseTokenResponse\<close>.
\<close>

datatype debug_msg =
  InitConnection jsval
| InitRefresh jsval
| TokenRequestError transport_error
| NoAccessToken

datatype event =
  Debug debug_msg
| ReadCerts "jsval list"
| Post post_options
| Callback nat "connection_exception option" "token option"
| CertCallback nat string "cert_map option"

text \<open>
  The properties of \<open>this\<close>. \<open>cb\<close> is \<open>Some k\<close> when the property holds the function
  numbered \<open>k\<close> and \<open>None\<close> when it holds no function (never set, deleted, or set to
  something else). \<open>tokenExpirationMs\<close> is written by the client-credentials class only.
  \<open>this.granttype\<close> is assigned \<open>conn.granttype\<close> by the constructor and by nothing else,
  so it is read from \<open>conn\<close>.
\<close>

record connection =
  cb :: "nat option"
  certs :: "cert_map option"
  tokenExpirationMs :: jsnum
  tokenExpiration :: "date option"
  effects :: "event list"

definition new_connection :: connection where
  "new_connection =
     \<lparr>cb = None, certs = None, tokenExpirationMs = Undef, tokenExpiration = None, effects = []\<rparr>"

definition emit :: "event \<Rightarrow> connection \<Rightarrow> connection" where
  "emit e st = st\<lparr>effects := effects st @ [e]\<rparr>"

section \<open>ClientCredentialsConnection\<close>

definition cc_buildTokenRequestBody ::
  "adp_connection \<Rightarrow> filesystem \<Rightarrow> js_error + request_payload" where
  "cc_buildTokenRequestBody conn fs =
     (case or_readFileSync fs (sslCertString conn) (sslCertPath conn) of
        Inl e \<Rightarrow> Inl e
      | Inr ca_v \<Rightarrow>
     (case or_readFileSync fs (sslKeyString conn) (sslKeyPath conn) of
        Inl e \<Rightarrow> Inl e
      | Inr key_v \<Rightarrow>
     (case or_readFileSync fs (sslCertString conn) (sslCertPath conn) of
        Inl e \<Rightarrow> Inl e
      | Inr cert_v \<Rightarrow>
          Inr \<lparr>agentOptions = \<lparr>ca = [ca_v], key = key_v, cert = cert_v\<rparr>,
               strictSSL = False,
               auth = Some \<lparr>user = clientId conn, pass = clientSecret conn,
                            sendImmediately = True\<rparr>,
               form = [(''grant_type'', granttype conn)]\<rparr>)))"

definition cc_getAccessToken ::
  "adp_connection \<Rightarrow> filesystem \<Rightarrow> connection \<Rightarrow> (js_error + unit) \<times> connection" where
  "cc_getAccessToken conn fs st =
     (case cc_buildTokenRequestBody conn fs of
        Inl e \<Rightarrow> (Inl e, st)
      | Inr p \<Rightarrow>
          (Inr (), emit (Post \<lparr>requestDesc = ''Access Token Request'',
                                url = tokenUrl conn, payload = p\<rparr>) st))"

definition cc_getCerts ::
  "adp_connection \<Rightarrow> filesystem \<Rightarrow> connection \<Rightarrow> (js_error + unit) \<times> connection" where
  "cc_getCerts conn fs st =
     (let certPaths = filter truthy [sslCertPath conn, sslKeyPath conn]
      in if length certPaths > 0 then (Inr (), emit (ReadCerts certPaths) st)
         else cc_getAccessToken conn fs st)"


definition cc_connect ::
  "adp_connection \<Rightarrow> filesystem \<Rightarrow> nat option \<Rightarrow> connection
     \<Rightarrow> (js_error + unit) \<times> connection" where
  "cc_connect conn fs k st =
     cc_getCerts conn fs ((emit (Debug (InitConnection (granttype conn))) st)\<lparr>cb := k\<rparr>)"

text \<open>
  \<open>defaultexpiration\<close> is \<open>config.connect.defaultexpiration\<close>, a number of seconds;
  \<open>now\<close> is the time value \<open>new Date()\<close> reads from the clock and \<open>tz\<close> the
  local time zone.
\<close>

definition cc_setTokenExpiration ::
  "timezone \<Rightarrow> real \<Rightarrow> int \<Rightarrow> token \<Rightarrow> connection \<Rightarrow> connection" where
  "cc_setTokenExpiration tz defaultexpiration now tok st =
     (let ms = num_mul (num_or (expires_in tok) (Num defaultexpiration)) (Num 1000);
          st1 = st\<lparr>tokenExpirationMs := ms\<rparr>;
          d = Date now;
          d1 = setSeconds tz d (num_add (getSeconds tz d) (num_div (tokenExpirationMs st1) (Num 1000)))
      in st1\<lparr>tokenExpiration := Some d1\<rparr>)"

definition cc_parseTokenResponse ::
  "timezone \<Rightarrow> real \<Rightarrow> int \<Rightarrow> transport_error option \<Rightarrow> token option \<Rightarrow> connection
     \<Rightarrow> (js_error + unit) \<times> connection" where
  "cc_parseTokenResponse tz defaultexpiration now err tok st =
     (let (ex, st1) =
            (case err of
               None \<Rightarrow> (None, st)
             | Some e \<Rightarrow>
                 (Some (ConnectionException
                    \<lparr>statusCode = transport_error.statusCode e,
                     oauthResponse = (case response e of None \<Rightarrow> JUndefined
                                      | Some r \<Rightarrow> body r)\<rparr>),
                  emit (Debug (TokenRequestError e)) st));
          st2 =
            (case tok of
               None \<Rightarrow> emit (Debug NoAccessToken) st1
             | Some t \<Rightarrow>
                 if \<not> truthy (access_token t) then emit (Debug NoAccessToken) st1
                 else cc_setTokenExpiration tz defaultexpiration now t st1)
      in case cb st2 of
           Some k \<Rightarrow> (Inr (), (emit (Callback k ex tok) st2)\<lparr>cb := None\<rparr>)
         | None \<Rightarrow> (Inr (), st2))"

section \<open>AuthorizationCodeConnection\<close>

definition ac_buildTokenRequestBody ::
  "adp_connection \<Rightarrow> filesystem \<Rightarrow> js_error + request_payload" where
  "ac_buildTokenRequestBody conn fs =
     (case or_readFileSync fs (sslCertString conn) (sslCertPath conn) of
        Inl e \<Rightarrow> Inl e
      | Inr ca_v \<Rightarrow>
     (case or_readFileSync fs (sslKeyString conn) (sslKeyPath conn) of
        Inl e \<Rightarrow> Inl e
      | Inr key_v \<Rightarrow>
     (case or_readFileSync fs (sslCertString conn) (sslCertPath conn) of
        Inl e \<Rightarrow> Inl e
      | Inr cert_v \<Rightarrow>
          Inr \<lparr>agentOptions = \<lparr>ca = [ca_v], key = key_v, cert = cert_v\<rparr>,
               strictSSL = False,
               auth = None,
               form = [(''grant_type'', granttype conn),
                       (''code'', authorizationCode conn),
                       (''redirect_uri'', callbackUrl conn),
                       (''client_id'', clientId conn),
                       (''client_secret'', clientSecret conn)]\<rparr>)))"

definition ac_buildRefreshTokenRequestBody ::
  "adp_connection \<Rightarrow> filesystem \<Rightarrow> jsval \<Rightarrow> js_error + request_payload" where
  "ac_buildRefreshTokenRequestBody conn fs refreshToken =
     (case or_readFileSync fs (sslCertString conn) (sslCertPath conn) of
        Inl e \<Rightarrow> Inl e
      | Inr ca_v \<Rightarrow>
     (case or_readFileSync fs (sslKeyString conn) (sslKeyPath conn) of
        Inl e \<Rightarrow> Inl e
      | Inr key_v \<Rightarrow>
     (case or_readFileSync fs (sslCertString conn) (sslCertPath conn) of
        Inl e \<Rightarrow> Inl e
      | Inr cert_v \<Rightarrow>
          Inr \<lparr>agentOptions = \<lparr>ca = [ca_v], key = key_v, cert = cert_v\<rparr>,
               strictSSL = False,
               auth = None,
               form = [(''grant_type'', JStr ''refresh_token''),
                       (''refresh_token'', refreshToken),
                       (''client_id'', clientId conn),
                       (''client_secret'', clientSecret conn),
                       (''scope'', JStr ''openid profile api'')]\<rparr>)))"

definition ac_getAccessToken ::
  "adp_connection \<Rightarrow> filesystem \<Rightarrow> jsval \<Rightarrow> connection
     \<Rightarrow> (js_error + unit) \<times> connection" where
  "ac_getAccessToken conn fs refreshToken st =
     (case (if truthy refreshToken then ac_buildRefreshTokenRequestBody conn fs refreshToken
            else ac_buildTokenRequestBody conn fs) of
        Inl e \<Rightarrow> (Inl e, st)
      | Inr p \<Rightarrow>
          (Inr (), emit (Post \<lparr>requestDesc = ''Authorization Code - Access Token Request'',
                                url = tokenUrl conn, payload = p\<rparr>) st))"

definition ac_getCerts ::
  "adp_connection \<Rightarrow> filesystem \<Rightarrow> jsval \<Rightarrow> connection
     \<Rightarrow> (js_error + unit) \<times> connection" where
  "ac_getCerts conn fs refreshToken st =
     (let certPaths = filter truthy [sslCertPath conn, sslKeyPath conn]
      in if length certPaths > 0 then (Inr (), emit (ReadCerts certPaths) st)
         else ac_getAccessToken conn fs refreshToken st)"


definition ac_connect ::
  "adp_connection \<Rightarrow> filesystem \<Rightarrow> nat option \<Rightarrow> connection
     \<Rightarrow> (js_error + unit) \<times> connection" where
  "ac_connect conn fs k st =
     ac_getCerts conn fs JUndefined
       ((emit (Debug (InitConnection (granttype conn))) st)\<lparr>cb := k\<rparr>)"

definition ac_refresh ::
  "adp_connection \<Rightarrow> filesystem \<Rightarrow> jsval \<Rightarrow> nat option \<Rightarrow> connection
     \<Rightarrow> (js_error + unit) \<times> connection" where
  "ac_refresh conn fs refreshToken k st =
     ac_getCerts conn fs refreshToken
       ((emit (Debug (InitRefresh (granttype conn))) st)\<lparr>cb := k\<rparr>)"

text \<open>
  The argument of \<open>setSeconds\<close> is \<open>date.getSeconds() + token.expires_in || default\<close>;
  \<open>+\<close> binds tighter than \<open>||\<close>.
\<close>

definition ac_setTokenExpiration ::
  "timezone \<Rightarrow> real \<Rightarrow> int \<Rightarrow> token \<Rightarrow> connection \<Rightarrow> connection" where
  "ac_setTokenExpiration tz defaultexpiration now tok st =
     (let d = Date now;
          d1 = setSeconds tz d
                 (num_or (num_add (getSeconds tz d) (expires_in tok)) (Num defaultexpiration))
      in st\<lparr>tokenExpiration := Some d1\<rparr>)"

text \<open>
  \<open>response.body\<close> throws a \<open>TypeError\<close> when \<open>err.response\<close> is absent, and so does
  \<open>this.cb(ex, token)\<close> when \<open>this.cb\<close> is no function.
\<close>

definition ac_parseTokenResponse ::
  "timezone \<Rightarrow> real \<Rightarrow> int \<Rightarrow> transport_error option \<Rightarrow> token option \<Rightarrow> connection
     \<Rightarrow> (js_error + unit) \<times> connection" where
  "ac_parseTokenResponse tz defaultexpiration now err tok st =
     (case (case err of
              None \<Rightarrow> Inr (None, st)
            | Some e \<Rightarrow>
                (case response e of
                   None \<Rightarrow> Inl (TypeError, emit (Debug (TokenRequestError e)) st)
                 | Some r \<Rightarrow>
                     Inr (Some (ConnectionException
                            \<lparr>statusCode = transport_error.statusCode e,
                             oauthResponse = body r\<rparr>),
                          emit (Debug (TokenRequestError e)) st))) of
        Inl (x, st1) \<Rightarrow> (Inl x, st1)
      | Inr (ex, st1) \<Rightarrow>
          (let st2 =
                 (case tok of
                    None \<Rightarrow> emit (Debug NoAccessToken) st1
                  | Some t \<Rightarrow>
                      if \<not> truthy (access_token t) then emit (Debug NoAccessToken) st1
                      else ac_setTokenExpiration tz defaultexpiration now t st1)
           in case cb st2 of
                Some k \<Rightarrow> (Inr (), emit (Callback k ex tok) st2)
              | None \<Rightarrow> (Inl TypeError, st2)))"

section \<open>Calls on a connection\<close>









section \<open>Observations on the effects of a connection\<close>

text \<open>
  The options of every \<open>Post\<close> constructed, the path lists of every call of the certificate
  loader, and the invocations of the stored callback, each in order of occurrence.
\<close>

fun post_of :: "event \<Rightarrow> post_options list" where
  "post_of (Post opts) = [opts]"
| "post_of e = []"

fun loader_call_of :: "event \<Rightarrow> jsval list list" where
  "loader_call_of (ReadCerts ps) = [ps]"
| "loader_call_of e = []"

fun callback_of :: "event \<Rightarrow> event list" where
  "callback_of (Callback k ex tok) = [Callback k ex tok]"
| "callback_of (CertCallback k e cs) = [CertCallback k e cs]"
| "callback_of e = []"

definition posted :: "connection \<Rightarrow> post_options list" where
  "posted st = concat (map post_of (effects st))"

definition loader_calls :: "connection \<Rightarrow> jsval list list" where
  "loader_calls st = concat (map loader_call_of (effects st))"

definition callbacks :: "connection \<Rightarrow> event list" where
  "callbacks st = concat (map callback_of (effects st))"

text \<open>The requests posted between the state \<open>st\<close> and the later state \<open>st'\<close>.\<close>

definition new_posts :: "connection \<Rightarrow> connection \<Rightarrow> post_options list" where
  "new_posts st st' = drop (length (posted st)) (posted st')"

subsection \<open>Example configurations\<close>

text \<open>
  \<open>inline_conn\<close> supplies certificate and key inline and no paths; \<open>bare_conn\<close> supplies
  neither; \<open>mixed_conn\<close> supplies the certificate inline and the key as a file.
  \<open>waiting\<close> is a connection whose callback number 0 is stored.
\<close>

definition inline_conn :: adp_connection where
  "inline_conn =
     \<lparr>granttype = JStr ''authorization_code'', tokenUrl = JStr ''https://token.example'',
      sslCertPath = JUndefined, sslKeyPath = JUndefined,
      sslCertString = JStr ''CERT'', sslKeyString = JStr ''KEY'',
      authorizationCode = JStr ''CODE'', callbackUrl = JStr ''https://app.example/cb'',
      clientId = JStr ''id'', clientSecret = JStr ''secret''\<rparr>"

definition bare_conn :: adp_connection where
  "bare_conn = inline_conn\<lparr>sslCertString := JUndefined, sslKeyString := JUndefined\<rparr>"

definition mixed_conn :: adp_connection where
  "mixed_conn =
     inline_conn\<lparr>granttype := JStr ''client_credentials'',
                 sslKeyString := JUndefined, sslKeyPath := JStr ''k.key''\<rparr>"

definition example_fs :: filesystem where
  "example_fs = map_of [(''c.pem'', ''CERTFILE''), (''k.key'', ''KEYFILE'')]"

definition waiting :: connection where
  "waiting = new_connection\<lparr>cb := Some 0\<rparr>"

text \<open>
  \<open>utc\<close> is the zone of UTC itself. \<open>new_york_2023\<close> is the zone of New York around
  5 November 2023, when daylight saving time ended at 06:00 UTC: four hours behind UTC
  before, five hours after; a local time before 02:00 of that day is interpreted with
  the offset before the change. \<open>token_3600\<close> and \<open>token_60\<close> are token responses.
\<close>

definition utc :: timezone where
  "utc = \<lparr>offset_at_utc = (\<lambda>t. 0), offset_at_local = (\<lambda>t. 0)\<rparr>"




definition refresh_payload_r1 :: request_payload where
  "refresh_payload_r1 =
     \<lparr>agentOptions = \<lparr>ca = [JStr ''CERT''], key = JBuffer ''KEYFILE'', cert = JStr ''CERT''\<rparr>,
      strictSSL = False, auth = None,
      form = [(''grant_type'', JStr ''refresh_token''), (''refresh_token'', JStr ''r1''),
              (''client_id'', JStr ''id''), (''client_secret'', JStr ''secret''),
              (''scope'', JStr ''openid profile api'')]\<rparr>"


section \<open>Basic facts\<close>

lemma posted_emit [simp]: "posted (emit e st) = posted st @ post_of e"
  by (simp add: posted_def emit_def)
lemma loader_calls_emit [simp]: "loader_calls (emit e st) = loader_calls st @ loader_call_of e"
  by (simp add: loader_calls_def emit_def)
lemma callbacks_emit [simp]: "callbacks (emit e st) = callbacks st @ callback_of e"
  by (simp add: callbacks_def emit_def)
lemma posted_upd [simp]: "posted (st\<lparr>cb := k\<rparr>) = posted st" "posted (st\<lparr>certs := c\<rparr>) = posted st"
  "posted (st\<lparr>tokenExpiration := x\<rparr>) = posted st" "posted (st\<lparr>tokenExpirationMs := y\<rparr>) = posted st"
  by (simp_all add: posted_def)
lemma loader_calls_upd [simp]: "loader_calls (st\<lparr>cb := k\<rparr>) = loader_calls st" "loader_calls (st\<lparr>certs := c\<rparr>) = loader_calls st"
  "loader_calls (st\<lparr>tokenExpiration := x\<rparr>) = loader_calls st" "loader_calls (st\<lparr>tokenExpirationMs := y\<rparr>) = loader_calls st"
  by (simp_all add: loader_calls_def)
lemma callbacks_upd [simp]: "callbacks (st\<lparr>cb := k\<rparr>) = callbacks st" "callbacks (st\<lparr>certs := c\<rparr>) = callbacks st"
  "callbacks (st\<lparr>tokenExpiration := x\<rparr>) = callbacks st" "callbacks (st\<lparr>tokenExpirationMs := y\<rparr>) = callbacks st"
  by (simp_all add: callbacks_def)
lemma emit_fields [simp]: "cb (emit e st) = cb st" "certs (emit e st) = certs st"
  "tokenExpiration (emit e st) = tokenExpiration st" "tokenExpirationMs (emit e st) = tokenExpirationMs st"
  "effects (emit e st) = effects st @ [e]"
  by (simp_all add: emit_def)

lemma cc_setTokenExpiration_fields [simp]:
  "cb (cc_setTokenExpiration tz d now t st) = cb st"
  "effects (cc_setTokenExpiration tz d now t st) = effects st"
  by (simp_all add: cc_setTokenExpiration_def Let_def)
lemma ac_setTokenExpiration_fields [simp]:
  "cb (ac_setTokenExpiration tz d now t st) = cb st"
  "effects (ac_setTokenExpiration tz d now t st) = effects st"
  "tokenExpirationMs (ac_setTokenExpiration tz d now t st) = tokenExpirationMs st"
  by (simp_all add: ac_setTokenExpiration_def Let_def)
lemma callbacks_set [simp]:
  "callbacks (cc_setTokenExpiration tz d now t st) = callbacks st"
  "callbacks (ac_setTokenExpiration tz d now t st) = callbacks st"
  by (simp_all add: callbacks_def)

lemma new_posts_same [simp]: "new_posts st st = []"
  by (simp add: new_posts_def)
lemma new_posts_emit [simp]: "posted st1 = posted st \<Longrightarrow> new_posts st (emit e st1) = post_of e"
  by (simp add: new_posts_def)

lemma or_readFileSync_truthy: "truthy s \<Longrightarrow> or_readFileSync fs s p = Inr s"
  by (simp add: or_readFileSync_def)

lemma or_readFileSync_falsy: "\<not> truthy s \<Longrightarrow> or_readFileSync fs s p = readFileSync fs p"
  by (simp add: or_readFileSync_def)

lemma cc_build_Inr:
  "cc_buildTokenRequestBody conn fs = Inr p \<Longrightarrow>
     \<exists>c k. or_readFileSync fs (sslCertString conn) (sslCertPath conn) = Inr c
         \<and> or_readFileSync fs (sslKeyString conn) (sslKeyPath conn) = Inr k
         \<and> agentOptions p = \<lparr>ca = [c], key = k, cert = c\<rparr> \<and> strictSSL p = False
         \<and> form p = [(''grant_type'', granttype conn)]"
  by (auto simp add: cc_buildTokenRequestBody_def split: sum.splits)

lemma ac_build_Inr:
  "ac_buildTokenRequestBody conn fs = Inr p \<Longrightarrow>
     \<exists>c k. or_readFileSync fs (sslCertString conn) (sslCertPath conn) = Inr c
         \<and> or_readFileSync fs (sslKeyString conn) (sslKeyPath conn) = Inr k
         \<and> agentOptions p = \<lparr>ca = [c], key = k, cert = c\<rparr> \<and> strictSSL p = False"
  by (auto simp add: ac_buildTokenRequestBody_def split: sum.splits)

lemma ac_buildRefresh_Inr:
  "ac_buildRefreshTokenRequestBody conn fs rt = Inr p \<Longrightarrow>
     \<exists>c k. or_readFileSync fs (sslCertString conn) (sslCertPath conn) = Inr c
         \<and> or_readFileSync fs (sslKeyString conn) (sslKeyPath conn) = Inr k
         \<and> agentOptions p = \<lparr>ca = [c], key = k, cert = c\<rparr> \<and> strictSSL p = False
         \<and> form p = [(''grant_type'', JStr ''refresh_token''), (''refresh_token'', rt),
                     (''client_id'', clientId conn), (''client_secret'', clientSecret conn),
                     (''scope'', JStr ''openid profile api'')]"
  by (auto simp add: ac_buildRefreshTokenRequestBody_def split: sum.splits)

lemma builders_Inr:
  assumes "b = cc_buildTokenRequestBody conn fs \<or> b = ac_buildTokenRequestBody conn fs
           \<or> b = ac_buildRefreshTokenRequestBody conn fs rt"
      and "b = Inr p"
  shows "\<exists>c k. or_readFileSync fs (sslCertString conn) (sslCertPath conn) = Inr c
         \<and> or_readFileSync fs (sslKeyString conn) (sslKeyPath conn) = Inr k
         \<and> agentOptions p = \<lparr>ca = [c], key = k, cert = c\<rparr> \<and> strictSSL p = False"
  using assms cc_build_Inr [of conn fs p] ac_build_Inr [of conn fs p]
    ac_buildRefresh_Inr [of conn fs rt p]
  by blast

lemma readFileSync_falsy: "\<not> truthy p \<Longrightarrow> isl (readFileSync fs p)"
  by (cases p) auto


lemma or_read_falsy_path:
  "\<not> truthy p \<Longrightarrow> isl (or_readFileSync fs s p) = (\<not> truthy s)"
  using readFileSync_falsy [of p fs] by (simp add: or_readFileSync_def)

lemma cc_build_no_paths:
  assumes "\<not> truthy (sslCertPath conn)" and "\<not> truthy (sslKeyPath conn)"
  shows "isl (cc_buildTokenRequestBody conn fs) = (\<not> (truthy (sslCertString conn) \<and> truthy (sslKeyString conn)))"
  using or_read_falsy_path [OF assms(1), of fs "sslCertString conn"]
    or_read_falsy_path [OF assms(2), of fs "sslKeyString conn"]
  by (auto simp add: cc_buildTokenRequestBody_def split: sum.splits)

lemma ac_build_no_paths:
  assumes "\<not> truthy (sslCertPath conn)" and "\<not> truthy (sslKeyPath conn)"
  shows "isl (ac_buildTokenRequestBody conn fs) = (\<not> (truthy (sslCertString conn) \<and> truthy (sslKeyString conn)))"
  using or_read_falsy_path [OF assms(1), of fs "sslCertString conn"]
    or_read_falsy_path [OF assms(2), of fs "sslKeyString conn"]
  by (auto simp add: ac_buildTokenRequestBody_def split: sum.splits)

lemma ac_buildRefresh_no_paths:
  assumes "\<not> truthy (sslCertPath conn)" and "\<not> truthy (sslKeyPath conn)"
  shows "isl (ac_buildRefreshTokenRequestBody conn fs rt) = (\<not> (truthy (sslCertString conn) \<and> truthy (sslKeyString conn)))"
  using or_read_falsy_path [OF assms(1), of fs "sslCertString conn"]
    or_read_falsy_path [OF assms(2), of fs "sslKeyString conn"]
  by (auto simp add: ac_buildRefreshTokenRequestBody_def split: sum.splits)

lemma cc_getAccessToken_outcome:
  assumes "posted st1 = posted st" and "loader_calls st1 = loader_calls st"
  shows "loader_calls (snd (cc_getAccessToken conn fs st1)) = loader_calls st
       \<and> isl (fst (cc_getAccessToken conn fs st1)) = isl (cc_buildTokenRequestBody conn fs)
       \<and> length (new_posts st (snd (cc_getAccessToken conn fs st1))) =
           (if isl (cc_buildTokenRequestBody conn fs) then 0 else 1)"
  using assms by (auto simp add: cc_getAccessToken_def new_posts_def split: sum.splits)

lemma ac_getAccessToken_outcome:
  assumes "posted st1 = posted st" and "loader_calls st1 = loader_calls st"
  shows "loader_calls (snd (ac_getAccessToken conn fs rt st1)) = loader_calls st
       \<and> isl (fst (ac_getAccessToken conn fs rt st1)) =
           isl (if truthy rt then ac_buildRefreshTokenRequestBody conn fs rt
                else ac_buildTokenRequestBody conn fs)
       \<and> length (new_posts st (snd (ac_getAccessToken conn fs rt st1))) =
           (if isl (if truthy rt then ac_buildRefreshTokenRequestBody conn fs rt
                else ac_buildTokenRequestBody conn fs) then 0 else 1)"
  using assms by (auto simp add: ac_getAccessToken_def new_posts_def split: sum.splits)

lemma getCerts_no_paths:
  assumes "\<not> truthy (sslCertPath conn)" and "\<not> truthy (sslKeyPath conn)"
  shows "cc_getCerts conn fs st = cc_getAccessToken conn fs st"
    and "ac_getCerts conn fs rt st = ac_getAccessToken conn fs rt st"
  using assms by (simp_all add: cc_getCerts_def ac_getCerts_def)

text \<open>
  What the handlers do on the inputs where the two classes agree or where only the
  client-credentials class is concerned: a transport error that carries a response and the
  deletion of the callback reference.
\<close>

lemma transport_error_with_response:
  assumes "response e = Some r" and "cb st = Some k"
  shows "callbacks (snd (cc_parseTokenResponse tz d now (Some e) tok st)) =
           callbacks st @
             [Callback k (Some (ConnectionException
                \<lparr>statusCode = transport_error.statusCode e, oauthResponse = body r\<rparr>)) tok]"
    and "callbacks (snd (ac_parseTokenResponse tz d now (Some e) tok st)) =
           callbacks st @
             [Callback k (Some (ConnectionException
                \<lparr>statusCode = transport_error.statusCode e, oauthResponse = body r\<rparr>)) tok]"
  using assms
  by (auto simp add: cc_parseTokenResponse_def ac_parseTokenResponse_def Let_def
      split: option.splits)

lemma cc_parseTokenResponse_discards_callback:
  assumes "cb st = Some k"
  shows "cb (snd (cc_parseTokenResponse tz d now err tok st)) = None"
    and "\<exists>ex. callbacks (snd (cc_parseTokenResponse tz d now err tok st)) =
           callbacks st @ [Callback k ex tok]"
  using assms
  by (auto simp add: cc_parseTokenResponse_def Let_def split: option.splits prod.splits)

section \<open>Expiration of the token\<close>







lemma local_seconds_bounds:
  "0 \<le> ((x::int) div 1000) mod 60" "(x div 1000) mod 60 < 60"
  by simp_all











text \<open>
  C2, at a response that omits \<open>expires_in\<close>, read 30.25 seconds into a minute with a
  default of 900 seconds: the authorization-code class evaluates
  \<open>(getSeconds() + undefined) || 900\<close> to 900 and sets the seconds field to 900, which is
  900 seconds after the start of the current minute, 30 seconds short of \<open>now + 900\<close>
  seconds. The client-credentials class gives \<open>now + 900\<close> seconds on the same input.
\<close>

theorem ac_omitted_expires_in_failing_input:
  "tokenExpiration (snd (ac_parseTokenResponse utc 900 1700000070250 None
        (Some \<lparr>access_token = JStr ''abc'', expires_in = Undef\<rparr>) waiting)) =
       Some (Date 1700000940250)
   \<and> tokenExpiration (snd (ac_parseTokenResponse utc 900 1700000070250 None
        (Some \<lparr>access_token = JStr ''abc'', expires_in = Undef\<rparr>) waiting)) \<noteq>
       Some (Date (1700000070250 + 900 * 1000))
   \<and> tokenExpiration (snd (cc_parseTokenResponse utc 900 1700000070250 None
        (Some \<lparr>access_token = JStr ''abc'', expires_in = Undef\<rparr>) waiting)) =
       Some (Date (1700000070250 + 900 * 1000))"
  by (simp add: ac_parseTokenResponse_def ac_setTokenExpiration_def cc_parseTokenResponse_def
      cc_setTokenExpiration_def Let_def
      utc_def num_add_def num_mul_def num_div_def ieee_def exact_def whole_def trunc_def
      TimeClip_def waiting_def new_connection_def emit_def)

section \<open>Transport failures\<close>

text \<open>
  C3, at a transport error that carries a status code and no response: the
  authorization-code handler reads \<open>response.body\<close> of an absent response, throws a
  \<open>TypeError\<close> after the debug message, and never invokes the stored callback.
\<close>

theorem ac_missing_response_failing_input:
  "ac_parseTokenResponse utc 900 1700000042500
       (Some \<lparr>transport_error.statusCode = Num 503, response = None\<rparr>) None waiting =
     (Inl TypeError,
      \<lparr>cb = Some 0, certs = None, tokenExpirationMs = Undef, tokenExpiration = None,
       effects = [Debug (TokenRequestError \<lparr>transport_error.statusCode = Num 503, response = None\<rparr>)]\<rparr>)"
  by (simp add: ac_parseTokenResponse_def waiting_def new_connection_def emit_def)

text \<open>
  C9. When the transport error carries no response, the client-credentials handler does
  not throw, whatever the token and the state; when a callback is stored it is invoked with
  the \<open>ConnectionException\<close> built from the error's status code and an undefined
  \<open>oauthResponse\<close>, and with the token.
\<close>

theorem cc_parseTokenResponse_tolerates_missing_response:
  assumes "response e = None"
  shows "fst (cc_parseTokenResponse tz d now (Some e) tok st) = Inr ()
       \<and> (cb st = Some k \<longrightarrow>
            callbacks (snd (cc_parseTokenResponse tz d now (Some e) tok st)) =
              callbacks st @
                [Callback k (Some (ConnectionException
                    \<lparr>statusCode = transport_error.statusCode e, oauthResponse = JUndefined\<rparr>)) tok])"
  using assms
  by (auto simp add: cc_parseTokenResponse_def Let_def split: option.splits)

text \<open>C9, at a transport error with status 503, no response and no token.\<close>

theorem cc_parseTokenResponse_tolerates_missing_response_witness:
  "response \<lparr>transport_error.statusCode = Num 503, response = None\<rparr> = None
   \<and> cb waiting = Some 0
   \<and> fst (cc_parseTokenResponse utc 900 1700000042500
        (Some \<lparr>transport_error.statusCode = Num 503, response = None\<rparr>) None waiting) = Inr ()
   \<and> callbacks (snd (cc_parseTokenResponse utc 900 1700000042500
        (Some \<lparr>transport_error.statusCode = Num 503, response = None\<rparr>) None waiting)) =
       [Callback 0 (Some (ConnectionException
          \<lparr>statusCode = Num 503, oauthResponse = JUndefined\<rparr>)) None]"
  using cc_parseTokenResponse_tolerates_missing_response
    [where e = "\<lparr>transport_error.statusCode = Num 503, response = None\<rparr>"
      and d = 900 and now = 1700000042500 and tok = None and st = waiting and k = 0]
  by (simp add: waiting_def new_connection_def callbacks_def)

section \<open>Completion of the token request\<close>

text \<open>
  C6, at a successful response with a stored callback: the authorization-code handler
  invokes the callback once with \<open>(undefined, token)\<close> and returns with the reference
  still stored in \<open>cb\<close>; the client-credentials handler deletes it on the same input.
\<close>

theorem ac_keeps_callback_failing_input:
  "ac_parseTokenResponse utc 900 1700000042500 None
       (Some \<lparr>access_token = JStr ''abc'', expires_in = Num 3600\<rparr>) waiting =
     (Inr (),
      \<lparr>cb = Some 0, certs = None, tokenExpirationMs = Undef,
       tokenExpiration = Some (Date 1700003642500),
       effects = [Callback 0 None (Some \<lparr>access_token = JStr ''abc'', expires_in = Num 3600\<rparr>)]\<rparr>)
   \<and> cb (snd (cc_parseTokenResponse utc 900 1700000042500 None
       (Some \<lparr>access_token = JStr ''abc'', expires_in = Num 3600\<rparr>) waiting)) = None"
  by (simp add: ac_parseTokenResponse_def ac_setTokenExpiration_def cc_parseTokenResponse_def
      cc_setTokenExpiration_def Let_def
      utc_def num_add_def num_mul_def num_div_def ieee_def exact_def whole_def trunc_def
      TimeClip_def waiting_def new_connection_def emit_def)

text \<open>
  C7. The transport succeeded (no error) and the token is absent or its \<open>access_token\<close>
  is missing or otherwise falsy, and a callback is stored. Then neither handler throws;
  each logs that no access token was retrieved and invokes the callback once with
  \<open>(undefined, token)\<close>, no exception being built; \<open>tokenExpiration\<close> and
  \<open>tokenExpirationMs\<close> stay as they were.
\<close>

theorem soft_token_absence:
  assumes "case tok of None \<Rightarrow> True | Some t \<Rightarrow> \<not> truthy (access_token t)"
      and "cb st = Some k"
  shows "fst (cc_parseTokenResponse tz d now None tok st) = Inr ()
       \<and> effects (snd (cc_parseTokenResponse tz d now None tok st)) =
           effects st @ [Debug NoAccessToken, Callback k None tok]
       \<and> tokenExpiration (snd (cc_parseTokenResponse tz d now None tok st)) = tokenExpiration st
       \<and> tokenExpirationMs (snd (cc_parseTokenResponse tz d now None tok st)) = tokenExpirationMs st
       \<and> fst (ac_parseTokenResponse tz d now None tok st) = Inr ()
       \<and> effects (snd (ac_parseTokenResponse tz d now None tok st)) =
           effects st @ [Debug NoAccessToken, Callback k None tok]
       \<and> tokenExpiration (snd (ac_parseTokenResponse tz d now None tok st)) = tokenExpiration st"
  using assms
  by (auto simp add: cc_parseTokenResponse_def ac_parseTokenResponse_def Let_def split: option.splits)

text \<open>C7, at a response that has \<open>expires_in\<close> and no \<open>access_token\<close>.\<close>

theorem soft_token_absence_witness:
  "\<not> truthy (access_token \<lparr>access_token = JUndefined, expires_in = Num 3600\<rparr>)
   \<and> cb waiting = Some 0
   \<and> fst (cc_parseTokenResponse utc 900 1700000042500 None
        (Some \<lparr>access_token = JUndefined, expires_in = Num 3600\<rparr>) waiting) = Inr ()
   \<and> effects (snd (cc_parseTokenResponse utc 900 1700000042500 None
        (Some \<lparr>access_token = JUndefined, expires_in = Num 3600\<rparr>) waiting)) =
       [Debug NoAccessToken,
        Callback 0 None (Some \<lparr>access_token = JUndefined, expires_in = Num 3600\<rparr>)]
   \<and> tokenExpiration (snd (cc_parseTokenResponse utc 900 1700000042500 None
        (Some \<lparr>access_token = JUndefined, expires_in = Num 3600\<rparr>) waiting)) = None
   \<and> fst (ac_parseTokenResponse utc 900 1700000042500 None
        (Some \<lparr>access_token = JUndefined, expires_in = Num 3600\<rparr>) waiting) = Inr ()
   \<and> effects (snd (ac_parseTokenResponse utc 900 1700000042500 None
        (Some \<lparr>access_token = JUndefined, expires_in = Num 3600\<rparr>) waiting)) =
       [Debug NoAccessToken,
        Callback 0 None (Some \<lparr>access_token = JUndefined, expires_in = Num 3600\<rparr>)]
   \<and> tokenExpiration (snd (ac_parseTokenResponse utc 900 1700000042500 None
        (Some \<lparr>access_token = JUndefined, expires_in = Num 3600\<rparr>) waiting)) = None"
  using soft_token_absence
    [where tok = "Some \<lparr>access_token = JUndefined, expires_in = Num 3600\<rparr>"
      and st = waiting and k = 0 and d = 900 and now = 1700000042500]
  by (simp add: waiting_def new_connection_def)

section \<open>Request payloads\<close>






text \<open>
  C10. Whenever one of the three builders returns a payload, \<open>ca\<close> is a one-element
  list whose element is the \<open>cert\<close> field.
\<close>

theorem ca_is_singleton_cert:
  assumes "b = cc_buildTokenRequestBody conn fs \<or> b = ac_buildTokenRequestBody conn fs
           \<or> b = ac_buildRefreshTokenRequestBody conn fs rt"
      and "b = Inr p"
  shows "ca (agentOptions p) = [cert (agentOptions p)]"
  using builders_Inr [OF assms] by auto

text \<open>C10, at the refresh payload of a configuration with an inline certificate.\<close>

theorem ca_is_singleton_cert_witness:
  "ac_buildRefreshTokenRequestBody mixed_conn example_fs (JStr ''r1'') = Inr refresh_payload_r1
   \<and> ca (agentOptions refresh_payload_r1) = [cert (agentOptions refresh_payload_r1)]"
proof -
  have b: "ac_buildRefreshTokenRequestBody mixed_conn example_fs (JStr ''r1'') =
             Inr refresh_payload_r1"
    by (simp add: ac_buildRefreshTokenRequestBody_def or_readFileSync_def mixed_conn_def
        inline_conn_def example_fs_def refresh_payload_r1_def)
  show ?thesis
    using b ca_is_singleton_cert
      [where b = "ac_buildRefreshTokenRequestBody mixed_conn example_fs (JStr ''r1'')"
        and conn = mixed_conn and fs = example_fs and rt = "JStr ''r1''"
        and p = refresh_payload_r1]
    by simp
qed

section \<open>Certificate loading\<close>

text \<open>
  C5 (as amended). When neither \<open>sslCertPath\<close> nor \<open>sslKeyPath\<close> is configured,
  \<open>connect\<close> of both classes and \<open>refresh\<close> never call the certificate loader. When
  \<open>sslCertString\<close> and \<open>sslKeyString\<close> are both supplied they return normally having
  posted exactly one token request; otherwise building the payload throws and no request
  is posted.
\<close>

theorem no_paths_skips_certificate_loader:
  assumes "\<not> truthy (sslCertPath conn)" and "\<not> truthy (sslKeyPath conn)"
  shows "loader_calls (snd (cc_connect conn fs k st)) = loader_calls st
       \<and> loader_calls (snd (ac_connect conn fs k st)) = loader_calls st
       \<and> loader_calls (snd (ac_refresh conn fs rt k st)) = loader_calls st
       \<and> (if truthy (sslCertString conn) \<and> truthy (sslKeyString conn)
          then fst (cc_connect conn fs k st) = Inr ()
             \<and> length (new_posts st (snd (cc_connect conn fs k st))) = 1
             \<and> fst (ac_connect conn fs k st) = Inr ()
             \<and> length (new_posts st (snd (ac_connect conn fs k st))) = 1
             \<and> fst (ac_refresh conn fs rt k st) = Inr ()
             \<and> length (new_posts st (snd (ac_refresh conn fs rt k st))) = 1
          else isl (fst (cc_connect conn fs k st))
             \<and> new_posts st (snd (cc_connect conn fs k st)) = []
             \<and> isl (fst (ac_connect conn fs k st))
             \<and> new_posts st (snd (ac_connect conn fs k st)) = []
             \<and> isl (fst (ac_refresh conn fs rt k st))
             \<and> new_posts st (snd (ac_refresh conn fs rt k st)) = [])"
proof -
  let ?c1 = "(emit (Debug (InitConnection (granttype conn))) st)\<lparr>cb := k\<rparr>"
  let ?c2 = "(emit (Debug (InitRefresh (granttype conn))) st)\<lparr>cb := k\<rparr>"
  have p1: "posted ?c1 = posted st" "loader_calls ?c1 = loader_calls st" by simp_all
  have p2: "posted ?c2 = posted st" "loader_calls ?c2 = loader_calls st" by simp_all
  have cc: "cc_connect conn fs k st = cc_getAccessToken conn fs ?c1"
    by (simp add: cc_connect_def getCerts_no_paths [OF assms])
  have ac: "ac_connect conn fs k st = ac_getAccessToken conn fs JUndefined ?c1"
    by (simp add: ac_connect_def getCerts_no_paths [OF assms])
  have rf: "ac_refresh conn fs rt k st = ac_getAccessToken conn fs rt ?c2"
    by (simp add: ac_refresh_def getCerts_no_paths [OF assms])
  note b = cc_build_no_paths [OF assms, of fs] ac_build_no_paths [OF assms, of fs]
    ac_buildRefresh_no_paths [OF assms, of fs rt]
  note o1 = cc_getAccessToken_outcome [OF p1, of conn fs]
  note o2 = ac_getAccessToken_outcome [OF p1, of conn fs JUndefined]
  note o3 = ac_getAccessToken_outcome [OF p2, of conn fs rt]
  have unit: "\<And>r :: js_error + unit. \<not> isl r \<Longrightarrow> r = Inr ()"
    by (case_tac r) auto
  show ?thesis
  proof (cases "truthy (sslCertString conn) \<and> truthy (sslKeyString conn)")
    case True
    with b have nb: "\<not> isl (cc_buildTokenRequestBody conn fs)"
      "\<not> isl (ac_buildTokenRequestBody conn fs)"
      "\<not> isl (ac_buildRefreshTokenRequestBody conn fs rt)" by simp_all
    from o1 nb have r1: "loader_calls (snd (cc_connect conn fs k st)) = loader_calls st"
      "fst (cc_connect conn fs k st) = Inr ()"
      "length (new_posts st (snd (cc_connect conn fs k st))) = 1"
      by (simp_all add: cc unit)
    from o2 nb have r2: "loader_calls (snd (ac_connect conn fs k st)) = loader_calls st"
      "fst (ac_connect conn fs k st) = Inr ()"
      "length (new_posts st (snd (ac_connect conn fs k st))) = 1"
      by (simp_all add: ac unit)
    from o3 nb have r3: "loader_calls (snd (ac_refresh conn fs rt k st)) = loader_calls st"
      "fst (ac_refresh conn fs rt k st) = Inr ()"
      "length (new_posts st (snd (ac_refresh conn fs rt k st))) = 1"
      by (simp_all add: rf unit split: if_splits)
    from True r1 r2 r3 show ?thesis by simp
  next
    case False
    with b have nb: "isl (cc_buildTokenRequestBody conn fs)"
      "isl (ac_buildTokenRequestBody conn fs)"
      "isl (ac_buildRefreshTokenRequestBody conn fs rt)" by simp_all
    from o1 nb have r1: "loader_calls (snd (cc_connect conn fs k st)) = loader_calls st"
      "isl (fst (cc_connect conn fs k st))"
      "new_posts st (snd (cc_connect conn fs k st)) = []"
      by (simp_all add: cc)
    from o2 nb have r2: "loader_calls (snd (ac_connect conn fs k st)) = loader_calls st"
      "isl (fst (ac_connect conn fs k st))"
      "new_posts st (snd (ac_connect conn fs k st)) = []"
      by (simp_all add: ac)
    from o3 nb have r3: "loader_calls (snd (ac_refresh conn fs rt k st)) = loader_calls st"
      "isl (fst (ac_refresh conn fs rt k st))"
      "new_posts st (snd (ac_refresh conn fs rt k st)) = []"
      by (simp_all add: rf split: if_splits)
    from False r1 r2 r3 show ?thesis by simp
  qed
qed

text \<open>C5, at a connection with inline certificate and key and no paths.\<close>

theorem no_paths_skips_certificate_loader_witness:
  "\<not> truthy (sslCertPath inline_conn) \<and> \<not> truthy (sslKeyPath inline_conn)
   \<and> loader_calls (snd (cc_connect inline_conn example_fs (Some 0) new_connection)) = []
   \<and> fst (cc_connect inline_conn example_fs (Some 0) new_connection) = Inr ()
   \<and> length (posted (snd (cc_connect inline_conn example_fs (Some 0) new_connection))) = 1
   \<and> loader_calls (snd (ac_refresh inline_conn example_fs (JStr ''r1'') (Some 0) new_connection)) = []
   \<and> fst (ac_refresh inline_conn example_fs (JStr ''r1'') (Some 0) new_connection) = Inr ()
   \<and> length (posted (snd (ac_refresh inline_conn example_fs (JStr ''r1'') (Some 0) new_connection))) = 1"
  using no_paths_skips_certificate_loader [where conn = inline_conn and fs = example_fs
      and k = "Some 0" and st = new_connection and rt = "JStr ''r1''"]
  by (simp add: inline_conn_def new_posts_def posted_def loader_calls_def new_connection_def)

text \<open>
  C5 as stated fails at a connection with no paths and no inline strings: \<open>connect\<close> skips
  the loader, and the payload builder then reads the file at an undefined path and throws,
  so no token request is made.
\<close>

theorem no_certificate_material_counterexample:
  "\<not> truthy (sslCertPath bare_conn) \<and> \<not> truthy (sslKeyPath bare_conn)
   \<and> cc_connect bare_conn example_fs (Some 0) new_connection =
       (Inl TypeError,
        \<lparr>cb = Some 0, certs = None, tokenExpirationMs = Undef, tokenExpiration = None,
         effects = [Debug (InitConnection (JStr ''authorization_code''))]\<rparr>)
   \<and> ac_connect bare_conn example_fs (Some 0) new_connection =
       (Inl TypeError,
        \<lparr>cb = Some 0, certs = None, tokenExpirationMs = Undef, tokenExpiration = None,
         effects = [Debug (InitConnection (JStr ''authorization_code''))]\<rparr>)"
  by (simp add: cc_connect_def cc_getCerts_def cc_getAccessToken_def cc_buildTokenRequestBody_def
      ac_connect_def ac_getCerts_def ac_getAccessToken_def ac_buildTokenRequestBody_def
      or_readFileSync_def bare_conn_def inline_conn_def new_connection_def emit_def)

end
